theory Spec2Isabelle
  imports Complex_Main
begin

section \<open>Numbers, dates and rounding\<close>

text \<open>
  A JavaScript Number is modelled as an exact rational and a Date as its integer count of
  milliseconds since the epoch.  The thresholds and bounds of the program (0, 70, 180,
  1000, 100) are integers, so every comparison is the one the program makes.
  \<open>Math.round x\<close> rounds to the nearest integer, a tie going up: it is the floor of
  \<open>x + 1/2\<close>.
\<close>

type_synonym date = int

definition Math_round :: "rat \<Rightarrow> int" where
  "Math_round x = \<lfloor>x + 1 / 2\<rfloor>"

text \<open>The idiom \<open>Math.round(x * 10) / 10\<close> of Glucose.js and the controller.\<close>

definition round_1dp :: "rat \<Rightarrow> rat" where
  "round_1dp x = of_int (Math_round (x * 10)) / 10"

section \<open>The Glucose model (models/Glucose.js)\<close>

text \<open>
  The document as the handlers use it.  The \<open>calibration\<close> sub-document and the
  \<open>createdAt\<close>/\<open>updatedAt\<close> stamps are never read or written by a handler and are
  left out.  \<open>doc_id\<close> is the document's \<open>_id\<close>.
\<close>

record metadata =
  rawValue :: "rat option"
  batteryLevel :: "int option"
  signalStrength :: "int option"
  sourceIp :: "string option"
  userAgent :: "string option"

record reading =
  doc_id :: nat
  timestamp :: date
  glucose :: rat
  trend :: string
  noise :: string
  device :: string
  userId :: "string option"
  metadata :: metadata

text \<open>The collection, in insertion order, and the identifier of the next document.\<close>

record store =
  docs :: "reading list"
  next_id :: nat

subsection \<open>Virtuals and instance methods\<close>

definition glucoseMmol :: "rat \<Rightarrow> rat" where
  "glucoseMmol g = round_1dp (g / 18.018)"

text \<open>The optional argument of each method is its threshold; absent, the default applies.\<close>

definition isHigh :: "reading \<Rightarrow> rat option \<Rightarrow> bool" where
  "isHigh r threshold = (glucose r > (case threshold of None \<Rightarrow> 180 | Some t \<Rightarrow> t))"

definition isLow :: "reading \<Rightarrow> rat option \<Rightarrow> bool" where
  "isLow r threshold = (glucose r < (case threshold of None \<Rightarrow> 70 | Some t \<Rightarrow> t))"

definition isInRange :: "reading \<Rightarrow> rat option \<Rightarrow> rat option \<Rightarrow> bool" where
  "isInRange r low high =
     (glucose r \<ge> (case low of None \<Rightarrow> 70 | Some l \<Rightarrow> l) \<and>
      glucose r \<le> (case high of None \<Rightarrow> 180 | Some h \<Rightarrow> h))"

text \<open>
  \<open>getTimeAgo\<close> builds a text from a number and a unit; the model keeps the number and
  the unit (the plural \<open>s\<close> is added when the number is not 1).
\<close>

datatype time_ago = Just_now | Minutes_ago int | Hours_ago int | Days_ago int

definition getTimeAgo :: "date \<Rightarrow> date \<Rightarrow> time_ago" where
  "getTimeAgo now ts =
     (let diff = now - ts; minutes = diff div 60000 in
      if minutes < 1 then Just_now
      else if minutes < 60 then Minutes_ago minutes
      else let hours = minutes div 60 in
        if hours < 24 then Hours_ago hours
        else Days_ago (hours div 24))"

subsection \<open>Schema validation\<close>

text \<open>
  \<open>save()\<close> validates the document against the schema declaration before the
  \<open>pre('save')\<close> hook runs.  Each failing validator contributes one error, named by
  the path and the kind of validator; \<open>Cast_failed\<close> is a value that is not of the
  declared type (NaN for a Number, an invalid Date).  A document of the model always has
  a timestamp and a finite value, so the \<open>required\<close> validators and the custom
  validator of \<open>glucose\<close> pass.
\<close>

datatype validator_kind = Is_required | Below_min | Above_max | Not_in_enum | Too_long | Cast_failed

datatype verror = VError string validator_kind

definition trend_values :: "string list" where
  "trend_values = [''Rising'', ''Falling'', ''Stable'', ''Unknown'']"

definition noise_values :: "string list" where
  "noise_values = [''Clean'', ''Light'', ''Medium'', ''Heavy'']"

definition check_min :: "string \<Rightarrow> rat \<Rightarrow> rat option \<Rightarrow> verror list" where
  "check_min path lo v =
     (case v of None \<Rightarrow> [] | Some x \<Rightarrow> if x < lo then [VError path Below_min] else [])"

definition check_max :: "string \<Rightarrow> rat \<Rightarrow> rat option \<Rightarrow> verror list" where
  "check_max path hi v =
     (case v of None \<Rightarrow> [] | Some x \<Rightarrow> if x > hi then [VError path Above_max] else [])"

definition validate_doc :: "reading \<Rightarrow> verror list" where
  "validate_doc d =
     check_min ''glucose'' 0 (Some (glucose d)) @
     check_max ''glucose'' 1000 (Some (glucose d)) @
     (if trend d \<in> set trend_values then [] else [VError ''trend'' Not_in_enum]) @
     (if noise d \<in> set noise_values then [] else [VError ''noise'' Not_in_enum]) @
     (if length (device d) > 100 then [VError ''device'' Too_long] else []) @
     check_min ''metadata.rawValue'' 0 (rawValue (metadata d)) @
     check_min ''metadata.batteryLevel'' 0 (map_option of_int (batteryLevel (metadata d))) @
     check_max ''metadata.batteryLevel'' 100 (map_option of_int (batteryLevel (metadata d))) @
     check_min ''metadata.signalStrength'' 0 (map_option of_int (signalStrength (metadata d))) @
     check_max ''metadata.signalStrength'' 100 (map_option of_int (signalStrength (metadata d)))"

subsection \<open>The pre-save hook\<close>

text \<open>
  The hook reads the clock twice: \<open>t_check\<close> is the \<open>new Date()\<close> of the comparison,
  \<open>t_assign\<close> the \<open>new Date()\<close> assigned when the timestamp is in the future.
  \<open>if (this.glucose)\<close> is false for 0, which is then left as it is.
\<close>

definition presave :: "date \<Rightarrow> date \<Rightarrow> reading \<Rightarrow> reading" where
  "presave t_check t_assign d =
     (let d1 = (if timestamp d > t_check then d\<lparr>timestamp := t_assign\<rparr> else d)
      in if glucose d1 \<noteq> 0 then d1\<lparr>glucose := round_1dp (glucose d1)\<rparr> else d1)"

subsection \<open>Errors thrown inside a handler\<close>

datatype js_error =
    ReferenceError string
  | ValidationError "verror list"
  | CastError string
  | MongoError nat

text \<open>
  \<open>save()\<close>: validation, then the hook, then the insert, which appends the document to
  the collection under a fresh identifier.
\<close>

definition save :: "date \<Rightarrow> date \<Rightarrow> store \<Rightarrow> reading \<Rightarrow> js_error + (reading \<times> store)" where
  "save t_check t_assign st d =
     (case validate_doc d of
        [] \<Rightarrow>
          (let saved = (presave t_check t_assign d)\<lparr>doc_id := next_id st\<rparr>
           in Inr (saved, st\<lparr>docs := docs st @ [saved], next_id := Suc (next_id st)\<rparr>))
      | e # es \<Rightarrow> Inl (ValidationError (e # es)))"

section \<open>Request validation (express-validator chains of glucoseController.js)\<close>

text \<open>
  A request field that is present either has the form its validators accept, \<open>Good v\<close>
  with the value \<open>v\<close> the sanitizers and parsers read from it, or it has not, \<open>Bad s\<close>
  with its text.  An absent field (\<open>undefined\<close>) is \<open>None\<close>; \<open>optional()\<close> skips a
  chain exactly then.  For \<open>glucose\<close>, \<open>Good g\<close> is a plain decimal numeral with value
  \<open>g\<close> (what \<open>isNumeric\<close> accepts); for \<open>timestamp\<close>, \<open>since\<close> and \<open>until\<close>
  an ISO 8601 date; for \<open>device\<close> a string; for \<open>limit\<close> an integer numeral.
\<close>

datatype 'a raw = Bad string | Good 'a

datatype jsval = JUndefined | JNumber rat | JDate date | JString string | JRaw string

text \<open>One entry of \<open>details\<close>: the keys \<open>field\<close>, \<open>message\<close> and \<open>value\<close>.\<close>

record detail =
  field :: string
  message :: string
  d_value :: jsval

definition is_space :: "char \<Rightarrow> bool" where
  "is_space c = (c \<in> set [CHR '' '', CHR 0x09, CHR 0x0A, CHR 0x0B, CHR 0x0C, CHR 0x0D])"

definition trim :: "string \<Rightarrow> string" where
  "trim s = rev (dropWhile is_space (rev (dropWhile is_space s)))"

definition is_hex_digit :: "char \<Rightarrow> bool" where
  "is_hex_digit c = (c \<in> set ''0123456789abcdefABCDEF'')"

definition isMongoId :: "string \<Rightarrow> bool" where
  "isMongoId s = (length s = 24 \<and> list_all is_hex_digit s)"

record xdrip_request =
  b_glucose :: "rat raw option"
  b_timestamp :: "date raw option"
  b_trend :: "string option"
  b_noise :: "string option"
  b_device :: "string raw option"
  b_userId :: "string option"
  b_rawValue :: "rat option"
  b_batteryLevel :: "int option"
  b_signalStrength :: "int option"
  req_ip :: "string option"
  req_userAgent :: "string option"

text \<open>
  \<open>b_rawValue\<close> is what \<open>parseFloat\<close> reads from the field, \<open>b_batteryLevel\<close> and
  \<open>b_signalStrength\<close> the integers \<open>parseInt(_, 10)\<close> reads; no chain validates them.
\<close>

definition num_value :: "rat raw option \<Rightarrow> jsval" where
  "num_value v = (case v of None \<Rightarrow> JUndefined | Some (Bad s) \<Rightarrow> JRaw s | Some (Good g) \<Rightarrow> JNumber g)"

definition date_value :: "date raw option \<Rightarrow> jsval" where
  "date_value v = (case v of None \<Rightarrow> JUndefined | Some (Bad s) \<Rightarrow> JRaw s | Some (Good t) \<Rightarrow> JDate t)"


text \<open>
  The \<open>glucose\<close> chain is not optional and has no \<open>bail()\<close>: \<open>isNumeric\<close> and
  \<open>isFloat({min: 0, max: 1000})\<close> both run and each failure adds its own entry.
\<close>

definition check_glucose :: "rat raw option \<Rightarrow> detail list" where
  "check_glucose v =
     (case v of
        Some (Good g) \<Rightarrow> []
      | _ \<Rightarrow> [\<lparr>field = ''glucose'', message = ''Glucose must be a number'', d_value = num_value v\<rparr>]) @
     (case v of
        Some (Good g) \<Rightarrow>
          if 0 \<le> g \<and> g \<le> 1000 then []
          else [\<lparr>field = ''glucose'', message = ''Glucose must be between 0 and 1000'', d_value = num_value v\<rparr>]
      | _ \<Rightarrow> [\<lparr>field = ''glucose'', message = ''Glucose must be between 0 and 1000'', d_value = num_value v\<rparr>])"

definition check_date :: "string \<Rightarrow> string \<Rightarrow> date raw option \<Rightarrow> detail list" where
  "check_date path msg v =
     (case v of
        Some (Bad s) \<Rightarrow> [\<lparr>field = path, message = msg, d_value = date_value v\<rparr>]
      | _ \<Rightarrow> [])"

definition check_isIn :: "string \<Rightarrow> string \<Rightarrow> string list \<Rightarrow> string option \<Rightarrow> detail list" where
  "check_isIn path msg allowed v =
     (case v of
        None \<Rightarrow> []
      | Some s \<Rightarrow> if s \<in> set allowed then [] else [\<lparr>field = path, message = msg, d_value = JString s\<rparr>])"

text \<open>
  The \<open>device\<close> chain: \<open>isString\<close> (default message), then the sanitizer \<open>trim\<close>, then
  \<open>isLength({max: 100})\<close> on the trimmed text.
\<close>

definition check_device :: "string raw option \<Rightarrow> detail list" where
  "check_device v =
     (case v of
        None \<Rightarrow> []
      | Some (Bad s) \<Rightarrow>
          [\<lparr>field = ''device'', message = ''Invalid value'', d_value = JRaw s\<rparr>] @
          (if length (trim s) \<le> 100 then []
           else [\<lparr>field = ''device'', message = ''Device name must be a string with max 100 characters'',
                  d_value = JString (trim s)\<rparr>])
      | Some (Good s) \<Rightarrow>
          (if length (trim s) \<le> 100 then []
           else [\<lparr>field = ''device'', message = ''Device name must be a string with max 100 characters'',
                  d_value = JString (trim s)\<rparr>]))"

definition check_userId :: "string option \<Rightarrow> detail list" where
  "check_userId v =
     (case v of
        None \<Rightarrow> []
      | Some s \<Rightarrow>
          if isMongoId s then []
          else [\<lparr>field = ''userId'', message = ''UserId must be a valid MongoDB ObjectId'', d_value = JString s\<rparr>])"

definition validateXDripData :: "xdrip_request \<Rightarrow> detail list" where
  "validateXDripData req =
     check_glucose (b_glucose req) @
     check_date ''timestamp'' ''Timestamp must be a valid ISO 8601 date'' (b_timestamp req) @
     check_isIn ''trend'' ''Trend must be one of: Rising, Falling, Stable, Unknown'' trend_values (b_trend req) @
     check_isIn ''noise'' ''Noise must be one of: Clean, Light, Medium, Heavy'' noise_values (b_noise req) @
     check_device (b_device req) @
     check_userId (b_userId req)"




section \<open>Responses\<close>

record upload_view =
  uv_id :: nat
  uv_glucose :: rat
  uv_timestamp :: date
  uv_trend :: string
  uv_noise :: string
  uv_device :: string
  uv_timeAgo :: time_ago

record reading_view =
  v_id :: nat
  v_glucose :: rat
  v_glucoseMmol :: rat
  v_timestamp :: date
  v_trend :: string
  v_noise :: string
  v_device :: string
  v_timeAgo :: time_ago
  v_isHigh :: bool
  v_isLow :: bool
  v_isInRange :: bool

text \<open>
  The \<open>stats\<close> object of the readings list: \<open>count\<close>, \<open>latest\<close> and \<open>oldest\<close> are
  always set, the other keys only when the page is not empty.
\<close>

record value_stats =
  s_average :: rat
  s_min :: rat
  s_max :: rat
  s_low :: nat
  s_normal :: nat
  s_high :: nat

record page_stats =
  s_count :: nat
  s_latest :: "date option"
  s_oldest :: "date option"
  s_values :: "value_stats option"

record query_echo =
  e_limit :: int
  e_userId :: "string option"
  e_since :: "date option"
  e_until :: "date option"

text \<open>The \<open>data\<close> object of the statistics endpoint.\<close>

record stats_data =
  count :: nat
  averageGlucose :: rat
  minGlucose :: rat
  maxGlucose :: rat
  lowReadings :: nat
  normalReadings :: nat
  highReadings :: nat
  timeInRange_low :: int
  timeInRange_normal :: int
  timeInRange_high :: int
  period_hours :: int
  period_since :: date
  period_until :: date

datatype response =
    Created upload_view
  | ReadingsOk "reading_view list" page_stats query_echo
  | StatsOk stats_data
  | LatestOk reading_view
  | ValidationErr "detail list"
  | DbValidationErr "verror list"
  | Duplicate
  | NotFound
  | InternalError

fun status :: "response \<Rightarrow> nat" where
  "status (Created _) = 201"
| "status (ReadingsOk _ _ _) = 200"
| "status (StatsOk _) = 200"
| "status (LatestOk _) = 200"
| "status (ValidationErr _) = 400"
| "status (DbValidationErr _) = 400"
| "status Duplicate = 409"
| "status NotFound = 404"
| "status InternalError = 500"

section \<open>Module scopes\<close>

text \<open>
  Both files are ES modules: an identifier is bound in a module when it is imported or
  declared there, or is a global of the runtime.  Evaluating an identifier that is not
  bound throws a ReferenceError at that point.
\<close>

definition js_globals :: "string list" where
  "js_globals = [''Math'', ''Date'', ''Object'', ''console'', ''process'', ''parseInt'', ''parseFloat'']"

text \<open>glucoseController.js: its import lines and its top-level declarations.\<close>

definition controller_scope :: "string list" where
  "controller_scope =
     [''body'', ''validationResult'', ''query'', ''Glucose'',
      ''getTimeAgo'', ''validateXDripData'', ''validateReadingsQuery'',
      ''handleXDripUpload'', ''getGlucoseReadings'', ''getGlucoseStats'']"

text \<open>routes/glucose.js: its import lines and its top-level declarations.\<close>

definition routes_scope :: "string list" where
  "routes_scope =
     [''express'', ''handleXDripUpload'', ''getGlucoseReadings'', ''getGlucoseStats'',
      ''validateXDripData'', ''validateReadingsQuery'', ''router'']"

definition resolve :: "string list \<Rightarrow> string \<Rightarrow> js_error + unit" where
  "resolve scope name =
     (if name \<in> set scope \<or> name \<in> set js_globals then Inr () else Inl (ReferenceError name))"

section \<open>POST /api/xdrip: handleXDripUpload\<close>

text \<open>
  The clock readings of one upload, in program order: the default of an absent
  timestamp, the two readings of the pre-save hook, and the reading of \<open>getTimeAgo\<close>.
\<close>

record upload_clock =
  at_default :: date
  at_check :: date
  at_assign :: date
  at_ago :: date

text \<open>The \<open>catch\<close> block of the handler.\<close>

definition catch_upload :: "js_error \<Rightarrow> response" where
  "catch_upload e =
     (case e of
        ValidationError es \<Rightarrow> DbValidationErr es
      | MongoError code \<Rightarrow> if code = 11000 then Duplicate else InternalError
      | _ \<Rightarrow> InternalError)"

text \<open>
  \<open>parseFloat(glucose)\<close> and \<open>new Date(timestamp)\<close>: a value that does not parse is NaN
  or an invalid Date, which the model's constructor records as a cast error and
  \<open>save()\<close> throws with the validation errors.
\<close>

definition parseFloat :: "rat raw option \<Rightarrow> rat option" where
  "parseFloat v = (case v of Some (Good g) \<Rightarrow> Some g | _ \<Rightarrow> None)"

definition new_Date :: "date \<Rightarrow> date raw option \<Rightarrow> date option" where
  "new_Date t_default v =
     (case v of None \<Rightarrow> Some t_default | Some (Good t) \<Rightarrow> Some t | Some (Bad s) \<Rightarrow> None)"

definition device_text :: "string raw option \<Rightarrow> string" where
  "device_text v = (case v of None \<Rightarrow> ''xDrip+'' | Some (Good s) \<Rightarrow> trim s | Some (Bad s) \<Rightarrow> trim s)"

definition build_metadata :: "xdrip_request \<Rightarrow> metadata" where
  "build_metadata req =
     \<lparr>rawValue = b_rawValue req,
      batteryLevel = b_batteryLevel req,
      signalStrength = b_signalStrength req,
      sourceIp = req_ip req,
      userAgent = req_userAgent req\<rparr>"

text \<open>The call \<open>new Glucose({...})\<close> of the handler, on the parsed value and date.\<close>

definition new_Glucose :: "store \<Rightarrow> xdrip_request \<Rightarrow> rat \<Rightarrow> date \<Rightarrow> reading" where
  "new_Glucose st req g ts =
     \<lparr>doc_id = next_id st,
      timestamp = ts,
      glucose = g,
      trend = (case b_trend req of None \<Rightarrow> ''Unknown'' | Some t \<Rightarrow> t),
      noise = (case b_noise req of None \<Rightarrow> ''Clean'' | Some n \<Rightarrow> n),
      device = device_text (b_device req),
      userId = b_userId req,
      metadata = build_metadata req\<rparr>"

definition created_view :: "date \<Rightarrow> reading \<Rightarrow> upload_view" where
  "created_view now savedReading =
     \<lparr>uv_id = doc_id savedReading,
      uv_glucose = glucose savedReading,
      uv_timestamp = timestamp savedReading,
      uv_trend = trend savedReading,
      uv_noise = noise savedReading,
      uv_device = device savedReading,
      uv_timeAgo = getTimeAgo now (timestamp savedReading)\<rparr>"

definition handleXDripUpload :: "upload_clock \<Rightarrow> xdrip_request \<Rightarrow> store \<Rightarrow> response \<times> store" where
  "handleXDripUpload clk req st =
     (let errors = validateXDripData req in
      if errors \<noteq> [] then (ValidationErr errors, st)
      else
        (case (parseFloat (b_glucose req), new_Date (at_default clk) (b_timestamp req)) of
           (Some g, Some ts) \<Rightarrow>
             (case save (at_check clk) (at_assign clk) st (new_Glucose st req g ts) of
                Inl e \<Rightarrow> (catch_upload e, st)
              | Inr (savedReading, st') \<Rightarrow> (Created (created_view (at_ago clk) savedReading), st'))
         | (None, _) \<Rightarrow> (catch_upload (ValidationError [VError ''glucose'' Cast_failed]), st)
         | (Some g, None) \<Rightarrow> (catch_upload (ValidationError [VError ''timestamp'' Cast_failed]), st)))"

section \<open>Queries on the collection\<close>

text \<open>
  \<open>find(query).sort({timestamp: -1}).limit(n)\<close> as the handlers call it: the documents
  that satisfy the query, newest first, documents of equal timestamp in insertion order,
  cut to the first \<open>n\<close>.  For the driver \<open>limit(0)\<close> is no limit and a negative limit
  counts as its absolute value.
\<close>

definition truthy :: "string option \<Rightarrow> string option" where
  "truthy v = (case v of None \<Rightarrow> None | Some s \<Rightarrow> if s = [] then None else Some s)"

definition matches :: "string option \<Rightarrow> date option \<Rightarrow> date option \<Rightarrow> reading \<Rightarrow> bool" where
  "matches u since until d =
     ((case u of None \<Rightarrow> True | Some x \<Rightarrow> userId d = Some x) \<and>
      (case since of None \<Rightarrow> True | Some s \<Rightarrow> timestamp d \<ge> s) \<and>
      (case until of None \<Rightarrow> True | Some t \<Rightarrow> timestamp d \<le> t))"

definition sort_desc :: "reading list \<Rightarrow> reading list" where
  "sort_desc xs = sort_key (\<lambda>d. - timestamp d) xs"


text \<open>
  A string is cast to an ObjectId when it has 24 hexadecimal digits or 12 characters;
  any other string throws.
\<close>

definition castObjectId :: "string \<Rightarrow> js_error + string" where
  "castObjectId u = (if isMongoId u \<or> length u = 12 then Inr u else Inl (CastError ''userId''))"

text \<open>\<open>Math.min(...xs)\<close> and \<open>Math.max(...xs)\<close> of a list with first element \<open>x\<close>.\<close>

fun Math_min :: "rat \<Rightarrow> rat list \<Rightarrow> rat" where
  "Math_min x [] = x"
| "Math_min x (y # ys) = Math_min (min x y) ys"

fun Math_max :: "rat \<Rightarrow> rat list \<Rightarrow> rat" where
  "Math_max x [] = x"
| "Math_max x (y # ys) = Math_max (max x y) ys"

section \<open>GET /api/readings: getGlucoseReadings\<close>

definition view_reading :: "date \<Rightarrow> reading \<Rightarrow> reading_view" where
  "view_reading now r =
     \<lparr>v_id = doc_id r,
      v_glucose = glucose r,
      v_glucoseMmol = round_1dp (glucose r / 18.018),
      v_timestamp = timestamp r,
      v_trend = trend r,
      v_noise = noise r,
      v_device = device r,
      v_timeAgo = getTimeAgo now (timestamp r),
      v_isHigh = (glucose r > 180),
      v_isLow = (glucose r < 70),
      v_isInRange = (glucose r \<ge> 70 \<and> glucose r \<le> 180)\<rparr>"






section \<open>GET /api/stats/:userId?: getGlucoseStats\<close>

record stats_request =
  p_userId :: "string option"
  q_hours :: "int option"

text \<open>The document of the \<open>$group\<close> stage; the pipeline returns none when nothing matches.\<close>

record group_doc =
  g_count :: nat
  g_averageGlucose :: rat
  g_minGlucose :: rat
  g_maxGlucose :: rat
  g_lowReadings :: nat
  g_normalReadings :: nat
  g_highReadings :: nat

definition aggregate_group :: "reading list \<Rightarrow> group_doc option" where
  "aggregate_group matched =
     (case map glucose matched of
        [] \<Rightarrow> None
      | g # gs \<Rightarrow>
          Some \<lparr>g_count = sum_list (map (\<lambda>_. 1) (g # gs)),
                g_averageGlucose = sum_list (g # gs) / of_nat (length (g # gs)),
                g_minGlucose = Math_min g gs,
                g_maxGlucose = Math_max g gs,
                g_lowReadings = sum_list (map (\<lambda>x. if x < 70 then 1 else 0) (g # gs)),
                g_normalReadings = sum_list (map (\<lambda>x. if x \<ge> 70 \<and> x \<le> 180 then 1 else 0) (g # gs)),
                g_highReadings = sum_list (map (\<lambda>x. if x > 180 then 1 else 0) (g # gs))\<rparr>)"

definition empty_group :: group_doc where
  "empty_group =
     \<lparr>g_count = 0, g_averageGlucose = 0, g_minGlucose = 0, g_maxGlucose = 0,
      g_lowReadings = 0, g_normalReadings = 0, g_highReadings = 0\<rparr>"

definition percent :: "nat \<Rightarrow> nat \<Rightarrow> int" where
  "percent bucket cnt = (if cnt > 0 then Math_round (of_nat bucket / of_nat cnt * 100) else 0)"

text \<open>
  The handler in a module with the given bindings.  \<open>t_now\<close> is the \<open>Date.now()\<close> of
  \<open>since\<close>, \<open>t_until\<close> the \<open>new Date()\<close> of the period.  The \<open>userId\<close> filter is built
  by \<open>mongoose.Types.ObjectId(userId)\<close>, evaluated only when \<open>userId\<close> is given.
\<close>

definition getGlucoseStats_in :: "string list \<Rightarrow> date \<Rightarrow> date \<Rightarrow> stats_request \<Rightarrow> store \<Rightarrow> response" where
  "getGlucoseStats_in scope t_now t_until req st =
     (let hours = (case q_hours req of None \<Rightarrow> 24 | Some h \<Rightarrow> h);
          since = t_now - hours * 60 * 60 * 1000
      in case (case truthy (p_userId req) of
                 None \<Rightarrow> Inr None
               | Some u \<Rightarrow>
                   (case resolve scope ''mongoose'' of
                      Inl e \<Rightarrow> Inl e
                    | Inr _ \<Rightarrow> (case castObjectId u of Inl e \<Rightarrow> Inl e | Inr oid \<Rightarrow> Inr (Some oid)))) of
           Inl e \<Rightarrow> InternalError
         | Inr user \<Rightarrow>
             (let stats = aggregate_group (filter (matches user (Some since) None) (docs st));
                  result = (case stats of Some g \<Rightarrow> g | None \<Rightarrow> empty_group)
              in StatsOk
                   \<lparr>count = g_count result,
                    averageGlucose = round_1dp (g_averageGlucose result),
                    minGlucose = g_minGlucose result,
                    maxGlucose = g_maxGlucose result,
                    lowReadings = g_lowReadings result,
                    normalReadings = g_normalReadings result,
                    highReadings = g_highReadings result,
                    timeInRange_low = percent (g_lowReadings result) (g_count result),
                    timeInRange_normal = percent (g_normalReadings result) (g_count result),
                    timeInRange_high = percent (g_highReadings result) (g_count result),
                    period_hours = hours,
                    period_since = since,
                    period_until = t_until\<rparr>))"

text \<open>The handler as exported: in the scope of glucoseController.js.\<close>

definition getGlucoseStats :: "date \<Rightarrow> date \<Rightarrow> stats_request \<Rightarrow> store \<Rightarrow> response" where
  "getGlucoseStats = getGlucoseStats_in controller_scope"

section \<open>GET /api/latest (routes/glucose.js)\<close>

text \<open>
  The handler in a module with the given bindings: \<open>Glucose\<close> is evaluated first, to
  call \<open>findOne\<close>, and \<open>getTimeAgo\<close> while the response is built.  The query's
  \<open>userId\<close> is cast by the model when the query runs.
\<close>

definition latest_in :: "string list \<Rightarrow> date \<Rightarrow> string option \<Rightarrow> store \<Rightarrow> response" where
  "latest_in scope t_ago q_user st =
     (case resolve scope ''Glucose'' of
        Inl e \<Rightarrow> InternalError
      | Inr _ \<Rightarrow>
          (case (case truthy q_user of
                   None \<Rightarrow> Inr None
                 | Some u \<Rightarrow> (case castObjectId u of Inl e \<Rightarrow> Inl e | Inr oid \<Rightarrow> Inr (Some oid))) of
             Inl e \<Rightarrow> InternalError
           | Inr user \<Rightarrow>
               (case sort_desc (filter (matches user None None) (docs st)) of
                  [] \<Rightarrow> NotFound
                | latestReading # _ \<Rightarrow>
                    (case resolve scope ''getTimeAgo'' of
                       Inl e \<Rightarrow> InternalError
                     | Inr _ \<Rightarrow> LatestOk (view_reading t_ago latestReading)))))"

text \<open>The handler as registered: in the scope of routes/glucose.js.\<close>

definition latest :: "date \<Rightarrow> string option \<Rightarrow> store \<Rightarrow> response" where
  "latest = latest_in routes_scope"

section \<open>Auxiliary notions for the statements\<close>

text \<open>
  The schema errors of the metadata paths, read off the request: the part of
  \<open>validate_doc\<close> that a request can still fail once its own validation has passed.
\<close>

definition metadata_errors :: "xdrip_request \<Rightarrow> verror list" where
  "metadata_errors req =
     check_min ''metadata.rawValue'' 0 (b_rawValue req) @
     check_min ''metadata.batteryLevel'' 0 (map_option of_int (b_batteryLevel req)) @
     check_max ''metadata.batteryLevel'' 100 (map_option of_int (b_batteryLevel req)) @
     check_min ''metadata.signalStrength'' 0 (map_option of_int (b_signalStrength req)) @
     check_max ''metadata.signalStrength'' 100 (map_option of_int (b_signalStrength req))"


section \<open>Derived flags\<close>

text \<open>
  Claim C7.  For every reading, the derived flags of the model methods (default
  thresholds) and of the response items are: \<open>isLow\<close> iff the value is below 70,
  \<open>isHigh\<close> iff it is above 180, \<open>isInRange\<close> iff it lies between 70 and 180
  inclusive.  At 70 a reading is in range and not low, at 180 in range and not high, at
  69.9 low, at 180.1 high.
\<close>

theorem derived_flags:
  "isLow r None = (glucose r < 70) \<and>
   isHigh r None = (glucose r > 180) \<and>
   isInRange r None None = (70 \<le> glucose r \<and> glucose r \<le> 180) \<and>
   v_isLow (view_reading now r) = (glucose r < 70) \<and>
   v_isHigh (view_reading now r) = (glucose r > 180) \<and>
   v_isInRange (view_reading now r) = (70 \<le> glucose r \<and> glucose r \<le> 180) \<and>
   v_isInRange (view_reading now (r\<lparr>glucose := 70\<rparr>)) = True \<and>
   v_isLow (view_reading now (r\<lparr>glucose := 70\<rparr>)) = False \<and>
   v_isInRange (view_reading now (r\<lparr>glucose := 180\<rparr>)) = True \<and>
   v_isHigh (view_reading now (r\<lparr>glucose := 180\<rparr>)) = False \<and>
   v_isLow (view_reading now (r\<lparr>glucose := 69.9\<rparr>)) = True \<and>
   v_isHigh (view_reading now (r\<lparr>glucose := 180.1\<rparr>)) = True \<and>
   isInRange (r\<lparr>glucose := 70\<rparr>) None None = True \<and>
   isLow (r\<lparr>glucose := 70\<rparr>) None = False \<and>
   isInRange (r\<lparr>glucose := 180\<rparr>) None None = True \<and>
   isHigh (r\<lparr>glucose := 180\<rparr>) None = False \<and>
   isLow (r\<lparr>glucose := 69.9\<rparr>) None = True \<and>
   isHigh (r\<lparr>glucose := 180.1\<rparr>) None = True"
  by (simp add: isLow_def isHigh_def isInRange_def view_reading_def)

section \<open>The latest-reading endpoint\<close>

text \<open>
  Claim C2.  The claim (200 with the newest matching reading, 404 when none matches,
  never a server error) fails on the handler as registered: routes/glucose.js binds
  neither \<open>Glucose\<close> nor \<open>getTimeAgo\<close>, so evaluating \<open>Glucose\<close> throws inside the
  \<open>try\<close> block and every request, whatever the query and the collection, is answered
  by the \<open>catch\<close> block with status 500.
\<close>

theorem latest_always_server_error:
  "latest t_ago q_user st = InternalError \<and> status (latest t_ago q_user st) = 500"
  by (simp add: latest_def latest_in_def resolve_def routes_scope_def js_globals_def)

text \<open>
  In a module that binds both identifiers the same handler answers a request without
  \<open>userId\<close> with 404 on an empty collection and otherwise with the first document of
  the descending sort, whose timestamp is the greatest.
\<close>

lemma sort_desc_newest:
  assumes "sort_desc xs = r # rs"
  shows "r \<in> set xs \<and> (\<forall>x \<in> set xs. timestamp x \<le> timestamp r)"
proof -
  have "sorted (map (\<lambda>d. - timestamp d) (sort_desc xs))"
    unfolding sort_desc_def by (rule sorted_sort_key)
  then have s: "sorted (map (\<lambda>d. - timestamp d) (r # rs))"
    by (simp only: assms)
  have "set (sort_desc xs) = set xs"
    unfolding sort_desc_def by (rule set_sort)
  then have m: "set xs = set (r # rs)"
    by (simp only: assms)
  from s have "\<forall>x \<in> set rs. timestamp x \<le> timestamp r" by auto
  with m show ?thesis by auto
qed

lemma latest_with_bindings:
  assumes "''Glucose'' \<in> set scope" and "''getTimeAgo'' \<in> set scope"
  shows "latest_in scope t_ago None st =
     (case sort_desc (docs st) of
        [] \<Rightarrow> NotFound
      | r # rs \<Rightarrow> LatestOk (view_reading t_ago r))"
  using assms
  by (simp add: latest_in_def resolve_def truthy_def matches_def split: list.splits)

section \<open>The statistics endpoint\<close>

text \<open>
  Claim C3.  The claim (200 with a summary over the owner's readings when a
  \<open>userId\<close> path parameter is given) fails on the handler as exported:
  glucoseController.js does not bind \<open>mongoose\<close>, so building the \<open>userId\<close> filter
  throws and every request that carries a non-empty \<open>userId\<close> is answered with
  status 500.
\<close>

theorem stats_with_userId_server_error:
  "getGlucoseStats t_now t_until \<lparr>p_userId = Some (c # cs), q_hours = h\<rparr> st = InternalError \<and>
   status (getGlucoseStats t_now t_until \<lparr>p_userId = Some (c # cs), q_hours = h\<rparr> st) = 500"
  by (simp add: getGlucoseStats_def getGlucoseStats_in_def truthy_def resolve_def
      controller_scope_def js_globals_def)

text \<open>
  In a module that binds \<open>mongoose\<close> the same handler answers a request with a
  well-formed \<open>userId\<close> with a summary.
\<close>

lemma stats_with_bindings:
  assumes "''mongoose'' \<in> set scope" and "isMongoId u"
  shows "\<exists>s. getGlucoseStats_in scope t_now t_until \<lparr>p_userId = Some u, q_hours = h\<rparr> st = StatsOk s"
proof -
  from assms(2) have "u \<noteq> []" by (auto simp: isMongoId_def)
  with assms show ?thesis
    by (simp add: getGlucoseStats_in_def resolve_def truthy_def castObjectId_def Let_def)
qed

section \<open>The upload path\<close>

lemma upload_rejected:
  "validateXDripData req \<noteq> [] \<Longrightarrow>
   handleXDripUpload clk req st = (ValidationErr (validateXDripData req), st)"
  by (simp add: handleXDripUpload_def)

lemma valid_glucose:
  "validateXDripData req = [] \<Longrightarrow> \<exists>g. b_glucose req = Some (Good g) \<and> 0 \<le> g \<and> g \<le> 1000"
  by (auto simp: validateXDripData_def check_glucose_def split: option.splits raw.splits if_splits)

lemma valid_timestamp:
  "validateXDripData req = [] \<Longrightarrow>
   new_Date t (b_timestamp req) = Some (case b_timestamp req of Some (Good x) \<Rightarrow> x | _ \<Rightarrow> t)"
  by (auto simp: validateXDripData_def check_date_def new_Date_def split: option.splits raw.splits)

lemma valid_trend:
  "validateXDripData req = [] \<Longrightarrow> (case b_trend req of None \<Rightarrow> ''Unknown'' | Some t \<Rightarrow> t) \<in> set trend_values"
  by (auto simp: validateXDripData_def check_isIn_def trend_values_def split: option.splits if_splits)

lemma valid_noise:
  "validateXDripData req = [] \<Longrightarrow> (case b_noise req of None \<Rightarrow> ''Clean'' | Some t \<Rightarrow> t) \<in> set noise_values"
  by (auto simp: validateXDripData_def check_isIn_def noise_values_def split: option.splits if_splits)

lemma valid_device:
  "validateXDripData req = [] \<Longrightarrow> length (device_text (b_device req)) \<le> 100"
  by (auto simp: validateXDripData_def check_device_def device_text_def trim_def is_space_def
      split: option.splits raw.splits if_splits)

lemma valid_doc_errors:
  assumes "validateXDripData req = []" and "b_glucose req = Some (Good g)"
  shows "validate_doc (new_Glucose st req g ts) = metadata_errors req"
proof -
  from assms valid_glucose [OF assms(1)] have g: "0 \<le> g" "g \<le> 1000" by auto
  show ?thesis
    using g valid_trend [OF assms(1)] valid_noise [OF assms(1)] valid_device [OF assms(1)]
    by (simp add: validate_doc_def new_Glucose_def metadata_errors_def build_metadata_def
        check_min_def check_max_def)
qed


lemma upload_schema_rejected:
  assumes "validateXDripData req = []" and "metadata_errors req \<noteq> []"
  shows "handleXDripUpload clk req st = (DbValidationErr (metadata_errors req), st)"
proof -
  obtain g where g: "b_glucose req = Some (Good g)"
    using valid_glucose [OF assms(1)] by blast
  obtain e es where es: "metadata_errors req = e # es"
    using assms(2) by (cases "metadata_errors req") auto
  show ?thesis
    using assms(1) g es
    by (simp add: handleXDripUpload_def parseFloat_def valid_timestamp save_def
        valid_doc_errors catch_upload_def)
qed

lemma upload_accepted:
  assumes "validateXDripData req = []" and "metadata_errors req = []"
    and "b_glucose req = Some (Good g)"
  shows "handleXDripUpload clk req st =
     (let ts = (case b_timestamp req of Some (Good x) \<Rightarrow> x | _ \<Rightarrow> at_default clk);
          saved = (presave (at_check clk) (at_assign clk) (new_Glucose st req g ts))\<lparr>doc_id := next_id st\<rparr>
      in (Created (created_view (at_ago clk) saved),
          st\<lparr>docs := docs st @ [saved], next_id := Suc (next_id st)\<rparr>))"
  using assms
  by (simp add: handleXDripUpload_def parseFloat_def valid_timestamp save_def
      valid_doc_errors Let_def)

lemma upload_status:
  "status (fst (handleXDripUpload clk req st)) =
     (if validateXDripData req = [] \<and> metadata_errors req = [] then 201 else 400)"
proof (cases "validateXDripData req = []")
  case False
  then show ?thesis by (simp add: upload_rejected)
next
  case True
  then obtain g where g: "b_glucose req = Some (Good g)"
    using valid_glucose by blast
  show ?thesis
  proof (cases "metadata_errors req = []")
    case True
    with \<open>validateXDripData req = []\<close> g show ?thesis
      by (simp add: upload_accepted Let_def)
  next
    case False
    with \<open>validateXDripData req = []\<close> show ?thesis
      by (simp add: upload_schema_rejected)
  qed
qed


lemma round_1dp_zero: "round_1dp 0 = 0"
  by (simp add: round_1dp_def Math_round_def floor_eq_iff)



lemma round_1dp_tenths: "round_1dp x * 10 = of_int (Math_round (x * 10))"
  by (simp add: round_1dp_def)



lemmas upload_eval =
  handleXDripUpload_def validateXDripData_def check_glucose_def check_date_def check_isIn_def
  check_device_def check_userId_def parseFloat_def new_Date_def save_def validate_doc_def
  check_min_def check_max_def build_metadata_def device_text_def trend_values_def
  noise_values_def catch_upload_def new_Glucose_def created_view_def presave_def
  num_value_def trim_def is_space_def isMongoId_def Let_def


text \<open>
  Claim C1, as stated, fails: a payload with \<open>glucose = 120\<close> and
  \<open>batteryLevel = 150\<close> is not inserted with the field dropped; \<open>save()\<close> fails the
  schema's \<open>max: 100\<close> validator and the handler answers 400, the collection unchanged.
\<close>

theorem out_of_range_metadata_counterexample:
  "handleXDripUpload
     \<lparr>at_default = 1000, at_check = 1001, at_assign = 1002, at_ago = 1003\<rparr>
     \<lparr>b_glucose = Some (Good 120), b_timestamp = None, b_trend = None, b_noise = None,
      b_device = None, b_userId = None, b_rawValue = None, b_batteryLevel = Some 150,
      b_signalStrength = None, req_ip = None, req_userAgent = None\<rparr>
     \<lparr>docs = [], next_id = 0\<rparr>
   = (DbValidationErr [VError ''metadata.batteryLevel'' Above_max], \<lparr>docs = [], next_id = 0\<rparr>)"
  by (simp add: upload_eval)

lemma metadata_errors_out_of_range:
  assumes "(\<exists>b. b_batteryLevel req = Some b \<and> (b < 0 \<or> 100 < b)) \<or>
           (\<exists>s. b_signalStrength req = Some s \<and> (s < 0 \<or> 100 < s))"
  shows "\<exists>k. VError ''metadata.batteryLevel'' k \<in> set (metadata_errors req) \<or>
             VError ''metadata.signalStrength'' k \<in> set (metadata_errors req)"
  using assms by (auto simp: metadata_errors_def check_min_def check_max_def)

text \<open>
  Claim C1, amended.  For every payload whose \<open>batteryLevel\<close> or \<open>signalStrength\<close>
  is present and outside [0, 100], the upload is answered with status 400 and nothing is
  inserted; when the payload passes the request validation, the answer is the database
  validation error of \<open>save()\<close>, with an error at the path of the metadata field.
\<close>

theorem out_of_range_metadata_rejected:
  assumes "(\<exists>b. b_batteryLevel req = Some b \<and> (b < 0 \<or> 100 < b)) \<or>
           (\<exists>s. b_signalStrength req = Some s \<and> (s < 0 \<or> 100 < s))"
  shows "snd (handleXDripUpload clk req st) = st \<and>
         status (fst (handleXDripUpload clk req st)) = 400 \<and>
         (validateXDripData req = [] \<longrightarrow>
            (\<exists>es k. fst (handleXDripUpload clk req st) = DbValidationErr es \<and>
               (VError ''metadata.batteryLevel'' k \<in> set es \<or>
                VError ''metadata.signalStrength'' k \<in> set es)))"
proof -
  from metadata_errors_out_of_range [OF assms]
  obtain k where k: "VError ''metadata.batteryLevel'' k \<in> set (metadata_errors req) \<or>
             VError ''metadata.signalStrength'' k \<in> set (metadata_errors req)" by blast
  then have ne: "metadata_errors req \<noteq> []" by auto
  show ?thesis
  proof (cases "validateXDripData req = []")
    case True
    from upload_schema_rejected [OF True ne, of clk st] k show ?thesis
      by auto
  next
    case False
    then show ?thesis by (simp add: upload_rejected)
  qed
qed

theorem out_of_range_metadata_rejected_witness:
  "snd (handleXDripUpload
     \<lparr>at_default = 1000, at_check = 1001, at_assign = 1002, at_ago = 1003\<rparr>
     \<lparr>b_glucose = Some (Good 120), b_timestamp = None, b_trend = None, b_noise = None,
      b_device = None, b_userId = None, b_rawValue = None, b_batteryLevel = None,
      b_signalStrength = Some (- 1), req_ip = None, req_userAgent = None\<rparr>
     \<lparr>docs = [], next_id = 0\<rparr>) = \<lparr>docs = [], next_id = 0\<rparr> \<and>
   status (fst (handleXDripUpload
     \<lparr>at_default = 1000, at_check = 1001, at_assign = 1002, at_ago = 1003\<rparr>
     \<lparr>b_glucose = Some (Good 120), b_timestamp = None, b_trend = None, b_noise = None,
      b_device = None, b_userId = None, b_rawValue = None, b_batteryLevel = None,
      b_signalStrength = Some (- 1), req_ip = None, req_userAgent = None\<rparr>
     \<lparr>docs = [], next_id = 0\<rparr>)) = 400"
  using out_of_range_metadata_rejected [of
     "\<lparr>b_glucose = Some (Good 120), b_timestamp = None, b_trend = None, b_noise = None,
      b_device = None, b_userId = None, b_rawValue = None, b_batteryLevel = None,
      b_signalStrength = Some (- 1), req_ip = None, req_userAgent = None\<rparr>"
     "\<lparr>at_default = 1000, at_check = 1001, at_assign = 1002, at_ago = 1003\<rparr>"
     "\<lparr>docs = [], next_id = 0\<rparr>"]
  by simp

section \<open>Rejected payloads\<close>











section \<open>The readings list\<close>


















section \<open>Ingest, then read back\<close>






text \<open>A payload that carries only a value in [0, 1000] is accepted.\<close>

lemma minimal_upload_accepted:
  assumes "0 \<le> v" and "v \<le> 1000"
  shows "status (fst (handleXDripUpload clk
     \<lparr>b_glucose = Some (Good v), b_timestamp = None, b_trend = None, b_noise = None,
      b_device = None, b_userId = None, b_rawValue = None, b_batteryLevel = None,
      b_signalStrength = None, req_ip = ip, req_userAgent = ua\<rparr> st)) = 201"
  using assms
  by (simp add: upload_status validateXDripData_def check_glucose_def check_date_def check_isIn_def
      check_device_def check_userId_def metadata_errors_def check_min_def check_max_def)



section \<open>Statistics\<close>



lemma aggregate_group_empty: "aggregate_group [] = None"
  by (simp add: aggregate_group_def)


lemma stats_ok_no_user:
  assumes "getGlucoseStats t_now t_until req st = StatsOk s"
  shows "truthy (p_userId req) = None"
  using assms
  by (cases "truthy (p_userId req)")
     (simp_all add: getGlucoseStats_def getGlucoseStats_in_def resolve_def
       controller_scope_def js_globals_def Let_def)

lemma stats_response:
  assumes "truthy (p_userId req) = None"
  shows "getGlucoseStats t_now t_until req st =
     (let hours = (case q_hours req of None \<Rightarrow> 24 | Some h \<Rightarrow> h);
          since = t_now - hours * 60 * 60 * 1000;
          result = (case aggregate_group (filter (matches None (Some since) None) (docs st)) of
                      Some g \<Rightarrow> g | None \<Rightarrow> empty_group)
      in StatsOk
           \<lparr>count = g_count result,
            averageGlucose = round_1dp (g_averageGlucose result),
            minGlucose = g_minGlucose result,
            maxGlucose = g_maxGlucose result,
            lowReadings = g_lowReadings result,
            normalReadings = g_normalReadings result,
            highReadings = g_highReadings result,
            timeInRange_low = percent (g_lowReadings result) (g_count result),
            timeInRange_normal = percent (g_normalReadings result) (g_count result),
            timeInRange_high = percent (g_highReadings result) (g_count result),
            period_hours = hours,
            period_since = since,
            period_until = t_until\<rparr>)"
  using assms by (simp add: getGlucoseStats_def getGlucoseStats_in_def Let_def)

text \<open>
  Claim C8.  For every statistics request whose window matches no reading: a request
  without a \<open>userId\<close> is answered with a summary, and every summary returned has
  count, average, minimum and maximum 0, the three bucket counts 0 and the three
  percentages 0; the percentages are guarded by \<open>count > 0\<close>, so nothing is divided
  by zero.
\<close>

theorem empty_window_all_zero:
  assumes "filter (matches (truthy (p_userId req))
             (Some (t_now - (case q_hours req of None \<Rightarrow> 24 | Some h \<Rightarrow> h) * 60 * 60 * 1000)) None)
             (docs st) = []"
  shows "(truthy (p_userId req) = None \<longrightarrow> (\<exists>s. getGlucoseStats t_now t_until req st = StatsOk s)) \<and>
         (\<forall>s. getGlucoseStats t_now t_until req st = StatsOk s \<longrightarrow>
            count s = 0 \<and> averageGlucose s = 0 \<and> minGlucose s = 0 \<and> maxGlucose s = 0 \<and>
            lowReadings s = 0 \<and> normalReadings s = 0 \<and> highReadings s = 0 \<and>
            timeInRange_low s = 0 \<and> timeInRange_normal s = 0 \<and> timeInRange_high s = 0)"
proof -
  have one: "\<exists>s. getGlucoseStats t_now t_until req st = StatsOk s" if "truthy (p_userId req) = None"
    using stats_response [OF that] by (simp add: Let_def)
  have two: "count s = 0 \<and> averageGlucose s = 0 \<and> minGlucose s = 0 \<and> maxGlucose s = 0 \<and>
            lowReadings s = 0 \<and> normalReadings s = 0 \<and> highReadings s = 0 \<and>
            timeInRange_low s = 0 \<and> timeInRange_normal s = 0 \<and> timeInRange_high s = 0"
    if s: "getGlucoseStats t_now t_until req st = StatsOk s" for s
  proof -
    have u: "truthy (p_userId req) = None" by (rule stats_ok_no_user [OF s])
    from assms u have "aggregate_group (filter (matches None
             (Some (t_now - (case q_hours req of None \<Rightarrow> 24 | Some h \<Rightarrow> h) * 60 * 60 * 1000)) None)
             (docs st)) = None"
      by (simp add: aggregate_group_empty)
    with s stats_response [OF u, of t_now t_until st] show ?thesis
      by (auto simp: Let_def empty_group_def percent_def round_1dp_zero)
  qed
  from one two show ?thesis by blast
qed

lemmas stats_eval =
  getGlucoseStats_def getGlucoseStats_in_def truthy_def matches_def aggregate_group_def
  empty_group_def percent_def round_1dp_def Math_round_def floor_eq_iff Let_def

theorem empty_window_all_zero_witness:
  "getGlucoseStats 100000000 100000001 \<lparr>p_userId = None, q_hours = None\<rparr> \<lparr>docs = [], next_id = 0\<rparr> =
     StatsOk \<lparr>count = 0, averageGlucose = 0, minGlucose = 0, maxGlucose = 0,
              lowReadings = 0, normalReadings = 0, highReadings = 0,
              timeInRange_low = 0, timeInRange_normal = 0, timeInRange_high = 0,
              period_hours = 24, period_since = 13600000, period_until = 100000001\<rparr> \<and>
   (\<exists>s. getGlucoseStats 100000000 100000001 \<lparr>p_userId = None, q_hours = None\<rparr> \<lparr>docs = [], next_id = 0\<rparr> = StatsOk s \<and>
        count s = 0 \<and> averageGlucose s = 0 \<and> timeInRange_low s = 0 \<and>
        timeInRange_normal s = 0 \<and> timeInRange_high s = 0)"
proof -
  have h: "filter (matches (truthy (p_userId \<lparr>p_userId = None, q_hours = None\<rparr>))
             (Some (100000000 - (case q_hours \<lparr>p_userId = None, q_hours = None\<rparr> of None \<Rightarrow> 24 | Some h \<Rightarrow> h) * 60 * 60 * 1000)) None)
             (docs \<lparr>docs = [], next_id = 0\<rparr>) = []"
    by simp
  have e: "getGlucoseStats 100000000 100000001 \<lparr>p_userId = None, q_hours = None\<rparr> \<lparr>docs = [], next_id = 0\<rparr> =
     StatsOk \<lparr>count = 0, averageGlucose = 0, minGlucose = 0, maxGlucose = 0,
              lowReadings = 0, normalReadings = 0, highReadings = 0,
              timeInRange_low = 0, timeInRange_normal = 0, timeInRange_high = 0,
              period_hours = 24, period_since = 13600000, period_until = 100000001\<rparr>"
    by (simp add: stats_eval)
  have u: "truthy (p_userId \<lparr>p_userId = None, q_hours = None\<rparr>) = None"
    by (simp add: truthy_def)
  from empty_window_all_zero [OF h, of 100000001] u
  have "\<exists>s. getGlucoseStats 100000000 100000001 \<lparr>p_userId = None, q_hours = None\<rparr> \<lparr>docs = [], next_id = 0\<rparr> = StatsOk s \<and>
        count s = 0 \<and> averageGlucose s = 0 \<and> timeInRange_low s = 0 \<and>
        timeInRange_normal s = 0 \<and> timeInRange_high s = 0"
    by blast
  with e show ?thesis by (intro conjI)
qed



end
